theory Spec2Isabelle
  imports Main
begin

section \<open>Peer identifiers: the validator \<open>uuid.UUID\<close>\<close>

text \<open>
  Every entry point of \<^verbatim>\<open>chat_websocket_sse.py\<close> validates an identifier by calling
  the standard library constructor \<^verbatim>\<open>uuid.UUID(s)\<close> and catching \<^verbatim>\<open>ValueError\<close>.
  For a string argument the constructor runs (CPython, \<^verbatim>\<open>Lib/uuid.py\<close>):
  \<^verbatim>\<open>
    hex = hex.replace('urn:', '').replace('uuid:', '')
    hex = hex.strip('{}').replace('-', '')
    if len(hex) != 32:
        raise ValueError('badly formed hexadecimal UUID string')
    int = int_(hex, 16)
  \<close>
  Strings are modelled as \<open>char list\<close>; a \<open>char\<close> stands for one code point below 256.
\<close>

fun replace_del :: "string \<Rightarrow> string \<Rightarrow> string" where
  \<comment> \<open>\<^verbatim>\<open>s.replace(old, '')\<close>: left to right, no rescanning of the result\<close>
  "replace_del old [] = []"
| "replace_del old (c # cs) =
     (if old \<noteq> [] \<and> take (length old) (c # cs) = old
      then replace_del old (drop (length old - 1) cs)
      else c # replace_del old cs)"

definition strip :: "string \<Rightarrow> string \<Rightarrow> string" where
  \<comment> \<open>\<^verbatim>\<open>s.strip(chars)\<close>\<close>
  "strip chars s =
     rev (dropWhile (\<lambda>c. c \<in> set chars) (rev (dropWhile (\<lambda>c. c \<in> set chars) s)))"

definition digit_value :: "char \<Rightarrow> nat option" where
  \<comment> \<open>value of a base-16 digit, \<open>None\<close> for any other character\<close>
  "digit_value c =
     (let n = (of_char c :: nat) in
      if 48 \<le> n \<and> n \<le> 57 then Some (n - 48)
      else if 97 \<le> n \<and> n \<le> 102 then Some (n - 87)
      else if 65 \<le> n \<and> n \<le> 70 then Some (n - 55)
      else None)"

definition isspace :: "char \<Rightarrow> bool" where
  \<comment> \<open>the characters below 256 that \<^verbatim>\<open>int()\<close> skips around a number\<close>
  "isspace c = ((of_char c :: nat) \<in> {9, 10, 11, 12, 13, 32, 133, 160})"

fun scan_digits :: "bool \<Rightarrow> nat \<Rightarrow> string \<Rightarrow> (nat \<times> string) option" where
  \<comment> \<open>digits with single underscores between them; the flag says that the previous
      character was an underscore. Returns the value and the unread rest.\<close>
  "scan_digits us acc [] = (if us then None else Some (acc, []))"
| "scan_digits us acc (c # cs) =
     (if c = CHR ''_'' then (if us then None else scan_digits True acc cs)
      else case digit_value c of
             Some d \<Rightarrow> scan_digits False (16 * acc + d) cs
           | None \<Rightarrow> (if us then None else Some (acc, c # cs)))"

definition int_16 :: "string \<Rightarrow> int option" where
  \<comment> \<open>\<^verbatim>\<open>int(s, 16)\<close>; \<open>None\<close> is \<^verbatim>\<open>ValueError\<close>\<close>
  "int_16 s =
     (let s1 = dropWhile isspace s;
          neg = (case s1 of c # _ \<Rightarrow> c = CHR ''-'' | [] \<Rightarrow> False);
          s2 = (case s1 of c # r \<Rightarrow> if c = CHR ''+'' \<or> c = CHR ''-'' then r else s1
                | [] \<Rightarrow> s1);
          s3 = (case s2 of
                  c # x # r \<Rightarrow>
                    if c = CHR ''0'' \<and> (x = CHR ''x'' \<or> x = CHR ''X'')
                    then (case r of u # r' \<Rightarrow> if u = CHR ''_'' then r' else r | [] \<Rightarrow> r)
                    else s2
                | _ \<Rightarrow> s2)
      in case s3 of
           [] \<Rightarrow> None
         | c # _ \<Rightarrow>
             if digit_value c = None then None
             else (case scan_digits False 0 s3 of
                     None \<Rightarrow> None
                   | Some (v, rest) \<Rightarrow>
                       if dropWhile isspace rest = []
                       then Some (if neg then - int v else int v)
                       else None))"

definition UUID :: "string \<Rightarrow> int option" where
  \<comment> \<open>\<^verbatim>\<open>uuid.UUID(s).int\<close>; \<open>None\<close> is \<^verbatim>\<open>ValueError\<close>\<close>
  "UUID s =
     (let hex = replace_del ''uuid:'' (replace_del ''urn:'' s);
          hex = replace_del ''-'' (strip ''{}'' hex)
      in if length hex \<noteq> 32 then None
         else case int_16 hex of
                None \<Rightarrow> None
              | Some i \<Rightarrow> if 0 \<le> i \<and> i < 2 ^ 128 then Some i else None)"

definition valid_uuid :: "string \<Rightarrow> bool" where
  \<comment> \<open>the \<^verbatim>\<open>try: uuid.UUID(s) except (ValueError, TypeError)\<close> gate\<close>
  "valid_uuid s = (UUID s \<noteq> None)"

section \<open>The registry and the channels\<close>

text \<open>
  The two module-level dictionaries \<^verbatim>\<open>websocket_connections\<close> and \<^verbatim>\<open>sse_queues\<close> map
  an identifier string to a WebSocket object and to an \<^verbatim>\<open>asyncio.Queue\<close>. The objects
  are modelled by handles (natural numbers). A WebSocket whose \<^verbatim>\<open>send_json\<close> raises
  (the peer is gone) is a handle in \<open>broken\<close>. Every successful \<^verbatim>\<open>send_json\<close> and every
  \<^verbatim>\<open>queue.put\<close> is appended to \<open>writes\<close>, in program order.

  Both kinds of object are truthy in Python (a Starlette connection is a non-empty
  mapping over its scope, a queue defines neither \<^verbatim>\<open>__bool__\<close> nor \<^verbatim>\<open>__len__\<close>), so
  \<^verbatim>\<open>if target_ws:\<close> tests presence in the dictionary.
\<close>

type_synonym ws_handle = nat
type_synonym queue_handle = nat

datatype frame =
    Error_frame string        \<comment> \<open>\<^verbatim>\<open>{"type": "error", "message": m}\<close>\<close>
  | Registered string         \<comment> \<open>\<^verbatim>\<open>{"type": "registered", "uuid": u}\<close>\<close>
  | Message string string     \<comment> \<open>\<^verbatim>\<open>{"type": "message", "from_uuid": f, "text": t}\<close>\<close>
  | Message_sent string       \<comment> \<open>\<^verbatim>\<open>{"type": "message_sent", "to_uuid": t}\<close>\<close>

datatype delivery = Ws_send ws_handle frame | Queue_put queue_handle frame

record world =
  websocket_connections :: "string \<rightharpoonup> ws_handle"
  sse_queues :: "string \<rightharpoonup> queue_handle"
  broken :: "ws_handle set"
  writes :: "delivery list"

definition send_json :: "ws_handle \<Rightarrow> frame \<Rightarrow> world \<Rightarrow> world option" where
  \<comment> \<open>\<^verbatim>\<open>await ws.send_json(f)\<close>; \<open>None\<close> when it raises\<close>
  "send_json w f s =
     (if w \<in> broken s then None else Some (s\<lparr>writes := writes s @ [Ws_send w f]\<rparr>))"

definition queue_put :: "queue_handle \<Rightarrow> frame \<Rightarrow> world \<Rightarrow> world" where
  \<comment> \<open>\<^verbatim>\<open>await queue.put(f)\<close> on an unbounded queue\<close>
  "queue_put q f s = s\<lparr>writes := writes s @ [Queue_put q f]\<rparr>"

fun truthy :: "string option \<Rightarrow> bool" where
  \<comment> \<open>Python truth value of a field read with \<^verbatim>\<open>.get\<close>: \<^verbatim>\<open>None\<close> and \<^verbatim>\<open>""\<close> are false\<close>
  "truthy None = False"
| "truthy (Some s) = (s \<noteq> [])"

section \<open>The WebSocket endpoint\<close>

text \<open>
  One received JSON object is an \<open>event\<close>; its fields are strings, or absent
  (\<^verbatim>\<open>data.get\<close> gives \<^verbatim>\<open>None\<close>). Any other \<^verbatim>\<open>type\<close> falls through both branches.
  One loop iteration is one step on the shared state, so sessions interleave between
  events; within an iteration nothing else runs.
\<close>

datatype event =
    Register "string option"                      \<comment> \<open>\<^verbatim>\<open>uuid\<close>\<close>
  | Message_event "string option" "string option" \<comment> \<open>\<^verbatim>\<open>to_uuid\<close>, \<^verbatim>\<open>text\<close>\<close>
  | Other_event

datatype flow = Continue | Raise

definition reply :: "ws_handle \<Rightarrow> frame \<Rightarrow> string option \<Rightarrow> world \<Rightarrow> flow \<times> string option \<times> world" where
  \<comment> \<open>\<^verbatim>\<open>await websocket.send_json(f)\<close> on the session's own socket, outside any inner
      \<^verbatim>\<open>try\<close>: an exception leaves the loop\<close>
  "reply w f user_uuid s =
     (case send_json w f s of None \<Rightarrow> (Raise, user_uuid, s) | Some s' \<Rightarrow> (Continue, user_uuid, s'))"

fun ws_event :: "ws_handle \<Rightarrow> string option \<Rightarrow> event \<Rightarrow> world \<Rightarrow> flow \<times> string option \<times> world" where
  \<comment> \<open>one iteration of the \<^verbatim>\<open>while True\<close> loop (lines 33-113); the second argument and
      the second component of the result are the local variable \<^verbatim>\<open>user_uuid\<close>,
      which line 38 assigns from the event before any check\<close>
  "ws_event w user_uuid (Register u) s =
     (if \<not> truthy u then reply w (Error_frame ''UUID is required'') u s
      else if \<not> valid_uuid (the u) then reply w (Error_frame ''Invalid UUID'') u s
      else reply w (Registered (the u)) u
             (s\<lparr>websocket_connections := (websocket_connections s)(the u \<mapsto> w)\<rparr>))"
| "ws_event w user_uuid (Message_event to_uuid text) s =
     (if \<not> truthy user_uuid then reply w (Error_frame ''Register first'') user_uuid s
      else if \<not> truthy to_uuid \<or> \<not> truthy text
      then reply w (Error_frame ''to_uuid and text are required'') user_uuid s
      else
        let m = Message (the user_uuid) (the text);
            target_ws = websocket_connections s (the to_uuid);
            s1 = (case target_ws of
                    None \<Rightarrow> s
                  | Some tw \<Rightarrow> (case send_json tw m s of None \<Rightarrow> s | Some s' \<Rightarrow> s'));
            target_queue = sse_queues s1 (the to_uuid);
            s2 = (case target_queue of None \<Rightarrow> s1 | Some q \<Rightarrow> queue_put q m s1)
        in if target_ws = None \<and> target_queue = None
           then reply w (Error_frame (''Peer '' @ the to_uuid @ '' is not online'')) user_uuid s2
           else reply w (Message_sent (the to_uuid)) user_uuid s2)"
| "ws_event w user_uuid Other_event s = (Continue, user_uuid, s)"

text \<open>
  The loop ends only by an exception. \<^verbatim>\<open>WebSocketDisconnect\<close> and \<^verbatim>\<open>Exception\<close> have
  a handler each (lines 115-122), with the same cleanup; \<^verbatim>\<open>asyncio.CancelledError\<close>
  derives from \<^verbatim>\<open>BaseException\<close> and passes both.
\<close>

datatype exit_cause = WebSocketDisconnect | Exception | CancelledError

definition ws_exit :: "exit_cause \<Rightarrow> string option \<Rightarrow> world \<Rightarrow> world" where
  "ws_exit cause user_uuid s =
     (case cause of
        CancelledError \<Rightarrow> s
      | _ \<Rightarrow> if truthy user_uuid
             then s\<lparr>websocket_connections := (websocket_connections s)(the user_uuid := None)\<rparr>
             else s)"

fun websocket_endpoint ::
  "ws_handle \<Rightarrow> string option \<Rightarrow> event list \<Rightarrow> exit_cause \<Rightarrow> world \<Rightarrow> world" where
  \<comment> \<open>the session from a given value of \<^verbatim>\<open>user_uuid\<close> on: the events still to be
      received, then the exception that \<^verbatim>\<open>receive_json\<close> raises. A session starts
      with \<open>None\<close> (line 29).\<close>
  "websocket_endpoint w user_uuid [] cause s = ws_exit cause user_uuid s"
| "websocket_endpoint w user_uuid (e # es) cause s =
     (case ws_event w user_uuid e s of
        (Raise, u, s') \<Rightarrow> ws_exit Exception u s'
      | (Continue, u, s') \<Rightarrow> websocket_endpoint w u es cause s')"

section \<open>The SSE endpoint\<close>

datatype response =
    Bad_request string   \<comment> \<open>status 400 with the error text\<close>
  | Not_found string     \<comment> \<open>status 404 with the error text\<close>
  | Ok_sent              \<comment> \<open>status 200, \<^verbatim>\<open>"success": True\<close>\<close>
  | Streaming            \<comment> \<open>the \<^verbatim>\<open>StreamingResponse\<close> of the SSE endpoint\<close>

definition sse_endpoint :: "string option \<Rightarrow> queue_handle \<Rightarrow> world \<Rightarrow> response \<times> world" where
  \<comment> \<open>lines 127-172; the second argument is the queue created at line 144\<close>
  "sse_endpoint user_uuid queue s =
     (if \<not> truthy user_uuid then (Bad_request ''UUID parameter is required'', s)
      else if \<not> valid_uuid (the user_uuid) then (Bad_request ''Invalid UUID'', s)
      else (Streaming, s\<lparr>sse_queues := (sse_queues s)(the user_uuid \<mapsto> queue)\<rparr>))"

definition sse_cancelled :: "string \<Rightarrow> world \<Rightarrow> world" where
  \<comment> \<open>the \<^verbatim>\<open>except asyncio.CancelledError\<close> branch of \<^verbatim>\<open>event_generator\<close> (line 160)\<close>
  "sse_cancelled user_uuid s = s\<lparr>sse_queues := (sse_queues s)(user_uuid := None)\<rparr>"

section \<open>The HTTP send endpoint\<close>

datatype request =
    Invalid_json
  | Body "string option" "string option" "string option"
      \<comment> \<open>\<^verbatim>\<open>from_uuid\<close>, \<^verbatim>\<open>to_uuid\<close>, \<^verbatim>\<open>text\<close>\<close>

fun send_message_http :: "request \<Rightarrow> world \<Rightarrow> response \<times> world" where
  "send_message_http Invalid_json s = (Bad_request ''Invalid JSON'', s)"
| "send_message_http (Body from_uuid to_uuid text) s =
     (if \<not> truthy from_uuid \<or> \<not> truthy to_uuid \<or> \<not> truthy text
      then (Bad_request ''from_uuid, to_uuid and text are required'', s)
      else if \<not> valid_uuid (the from_uuid) \<or> \<not> valid_uuid (the to_uuid)
      then (Bad_request ''Invalid UUID'', s)
      else
        let m = Message (the from_uuid) (the text);
            target_ws = websocket_connections s (the to_uuid);
            (delivered, s1) =
               (case target_ws of
                  None \<Rightarrow> (False, s)
                | Some tw \<Rightarrow> (case send_json tw m s of None \<Rightarrow> (False, s) | Some s' \<Rightarrow> (True, s')));
            target_queue = sse_queues s1 (the to_uuid);
            (delivered, s2) =
               (case target_queue of
                  None \<Rightarrow> (delivered, s1)
                | Some q \<Rightarrow> (True, queue_put q m s1))
        in if \<not> delivered
           then (Not_found (''Peer '' @ the to_uuid @ '' is not online''), s2)
           else (Ok_sent, s2))"

section \<open>The canonical textual form\<close>

text \<open>
  The layout the specification names: 32 hexadecimal digits in groups of 8, 4, 4, 4 and
  12, separated by hyphens. This definition follows the specification, not the code.
\<close>

definition hexdigit :: "char \<Rightarrow> bool" where
  "hexdigit c = (digit_value c \<noteq> None)"

definition canonical_layout :: "string \<Rightarrow> bool" where
  "canonical_layout s =
     (length s = 36 \<and>
      list_all hexdigit (take 8 s) \<and> s ! 8 = CHR ''-'' \<and>
      list_all hexdigit (take 4 (drop 9 s)) \<and> s ! 13 = CHR ''-'' \<and>
      list_all hexdigit (take 4 (drop 14 s)) \<and> s ! 18 = CHR ''-'' \<and>
      list_all hexdigit (take 4 (drop 19 s)) \<and> s ! 23 = CHR ''-'' \<and>
      list_all hexdigit (drop 24 s))"

section \<open>Example values\<close>

text \<open>
  Two identifiers in canonical form, the first one again in upper case, and the state of
  a freshly loaded module (lines 22-23: both dictionaries empty), with no broken channel
  and nothing written yet.
\<close>

abbreviation uuid_a :: string where
  "uuid_a \<equiv> ''550e8400-e29b-41d4-a716-446655440000''"

abbreviation uuid_a_upper :: string where
  "uuid_a_upper \<equiv> ''550E8400-E29B-41D4-A716-446655440000''"

abbreviation uuid_b :: string where
  "uuid_b \<equiv> ''6ba7b810-9dad-11d1-80b4-00c04fd430c8''"

abbreviation start :: world where
  "start \<equiv> \<lparr>websocket_connections = Map.empty, sse_queues = Map.empty, broken = {}, writes = []\<rparr>"

section \<open>Facts about the validator\<close>

lemma replace_del_absent:
  "old \<noteq> [] \<Longrightarrow> hd old \<notin> set s \<Longrightarrow> replace_del old s = s"
proof (induction s)
  case Nil
  then show ?case by simp
next
  case (Cons c cs)
  have "take (length old) (c # cs) \<noteq> old"
  proof
    assume eq: "take (length old) (c # cs) = old"
    from Cons.prems(1) obtain x xs where old: "old = x # xs" by (cases old) auto
    with eq have "x = c" by simp
    with Cons.prems(2) old show False by simp
  qed
  with Cons show ?case by simp
qed

lemma replace_del_single: "replace_del [x] s = filter (\<lambda>c. c \<noteq> x) s"
  by (induction s) auto

lemma strip_id:
  assumes "s \<noteq> []" "hd s \<notin> set chars" "last s \<notin> set chars"
  shows "strip chars s = s"
proof -
  from assms obtain c cs where s: "s = c # cs" by (cases s) auto
  with assms have 1: "dropWhile (\<lambda>c. c \<in> set chars) s = s" by simp
  from assms have "rev s \<noteq> []" "hd (rev s) \<notin> set chars" by (simp_all add: hd_rev)
  then have 2: "dropWhile (\<lambda>c. c \<in> set chars) (rev s) = rev s" by (cases "rev s") auto
  show ?thesis by (simp add: strip_def 1 2)
qed

lemma scan_digits_all:
  "list_all hexdigit ds \<Longrightarrow> \<exists>v. scan_digits False acc ds = Some (v, [])"
proof (induction ds arbitrary: acc)
  case Nil
  then show ?case by simp
next
  case (Cons c cs)
  from Cons.prems have hc: "hexdigit c" and r: "list_all hexdigit cs" by simp_all
  from hc have h: "digit_value c \<noteq> None" by (simp add: hexdigit_def)
  have nu: "c \<noteq> CHR ''_''" using h by (auto simp: digit_value_def)
  from h obtain d where d: "digit_value c = Some d" by auto
  from Cons.IH [OF r] show ?case by (simp add: nu d)
qed

lemma hexdigit_not_special:
  "hexdigit c \<Longrightarrow> \<not> isspace c \<and> c \<noteq> CHR ''+'' \<and> c \<noteq> CHR ''-'' \<and> c \<noteq> CHR ''x'' \<and> c \<noteq> CHR ''X''
     \<and> c \<noteq> CHR ''u'' \<and> c \<noteq> CHR ''{'' \<and> c \<noteq> CHR ''}''"
  by (auto simp: hexdigit_def digit_value_def isspace_def Let_def split: if_splits)

lemma scan_digits_bound:
  "list_all hexdigit ds \<Longrightarrow> scan_digits False acc ds = Some (v, r) \<Longrightarrow>
     v < (acc + 1) * 16 ^ length ds"
proof (induction ds arbitrary: acc)
  case Nil
  then show ?case by simp
next
  case (Cons c cs)
  from Cons.prems have hc: "hexdigit c" and r: "list_all hexdigit cs" by simp_all
  have nu: "c \<noteq> CHR ''_''" using hc by (auto simp: hexdigit_def digit_value_def)
  from hc obtain d where d: "digit_value c = Some d" by (auto simp: hexdigit_def)
  then have d16: "d < 16" by (auto simp: digit_value_def Let_def split: if_splits)
  from Cons.prems(2) have "scan_digits False (16 * acc + d) cs = Some (v, r)" by (simp add: nu d)
  from Cons.IH [OF r this] have "v < (16 * acc + d + 1) * 16 ^ length cs" .
  also have "\<dots> \<le> (16 * (acc + 1)) * 16 ^ length cs" using d16 by (intro mult_right_mono) simp_all
  finally show ?case by (simp add: algebra_simps)
qed

lemma int_16_hex:
  assumes "ds \<noteq> []" "list_all hexdigit ds"
  shows "\<exists>v. int_16 ds = Some (int v) \<and> v < 16 ^ length ds"
proof -
  from assms obtain c cs where ds: "ds = c # cs" and hc: "hexdigit c" by (cases ds) auto
  note sp = hexdigit_not_special [OF hc]
  from scan_digits_all [OF assms(2), of 0] obtain v where v: "scan_digits False 0 ds = Some (v, [])"
    by blast
  have dv: "digit_value c \<noteq> None" using hc by (simp add: hexdigit_def)
  from v ds have v': "scan_digits False 0 (c # cs) = Some (v, [])" by simp
  have "int_16 (c # cs) = Some (int v)"
  proof (cases cs)
    case Nil
    with sp dv v' show ?thesis by (simp add: int_16_def Let_def del: scan_digits.simps)
  next
    case (Cons x r)
    with assms(2) ds have "hexdigit x" by simp
    from hexdigit_not_special [OF this] have "x \<noteq> CHR ''x''" "x \<noteq> CHR ''X''" by simp_all
    with sp dv v' Cons show ?thesis by (simp add: int_16_def Let_def del: scan_digits.simps)
  qed
  moreover from scan_digits_bound [OF assms(2) v] have "v < 16 ^ length ds" by simp
  ultimately show ?thesis using ds by blast
qed

lemma canonical_parts:
  assumes "canonical_layout s"
  shows "s = take 8 s @ CHR ''-'' # take 4 (drop 9 s) @ CHR ''-'' # take 4 (drop 14 s) @ CHR ''-'' #
             take 4 (drop 19 s) @ CHR ''-'' # drop 24 s"
proof -
  from assms have len: "length s = 36" and h: "s ! 8 = CHR ''-''" "s ! 13 = CHR ''-''"
    "s ! 18 = CHR ''-''" "s ! 23 = CHR ''-''" by (simp_all add: canonical_layout_def)
  have d23: "drop 23 s = CHR ''-'' # drop 24 s"
    using len h(4) Cons_nth_drop_Suc [of 23 s] by simp
  have d18: "drop 18 s = CHR ''-'' # drop 19 s"
    using len h(3) Cons_nth_drop_Suc [of 18 s] by simp
  have d13: "drop 13 s = CHR ''-'' # drop 14 s"
    using len h(2) Cons_nth_drop_Suc [of 13 s] by simp
  have d8: "drop 8 s = CHR ''-'' # drop 9 s"
    using len h(1) Cons_nth_drop_Suc [of 8 s] by simp
  have "drop 19 s = take 4 (drop 19 s) @ drop 4 (drop 19 s)" by (rule append_take_drop_id [symmetric])
  then have e19: "drop 19 s = take 4 (drop 19 s) @ CHR ''-'' # drop 24 s" using d23 by simp
  have "drop 14 s = take 4 (drop 14 s) @ drop 4 (drop 14 s)" by (rule append_take_drop_id [symmetric])
  then have e14: "drop 14 s = take 4 (drop 14 s) @ CHR ''-'' # drop 19 s" using d18 by simp
  have "drop 9 s = take 4 (drop 9 s) @ drop 4 (drop 9 s)" by (rule append_take_drop_id [symmetric])
  then have e9: "drop 9 s = take 4 (drop 9 s) @ CHR ''-'' # drop 14 s" using d13 by simp
  have "s = take 8 s @ drop 8 s" by (rule append_take_drop_id [symmetric])
  then have "s = take 8 s @ CHR ''-'' # drop 9 s" using d8 by simp
  then show ?thesis using e9 e14 e19 by metis
qed

lemma valid_uuid_nonempty: "valid_uuid s \<Longrightarrow> s \<noteq> []"
  by (auto simp: valid_uuid_def UUID_def strip_def)

lemmas uuid_eval = UUID_def int_16_def strip_def digit_value_def isspace_def valid_uuid_def

lemma valid_example_a: "valid_uuid uuid_a"
  by (simp add: uuid_eval)

lemma valid_example_b: "valid_uuid uuid_b"
  by (simp add: uuid_eval)

lemma invalid_example: "\<not> valid_uuid ''not-a-uuid''"
  by (simp add: uuid_eval)

lemma ws_message_step:
  assumes "user \<noteq> []" "to \<noteq> []" "text \<noteq> []" "w \<notin> broken s"
  shows "ws_event w (Some user) (Message_event (Some to) (Some text)) s =
    (Continue, Some user,
     s\<lparr>writes := writes s
        @ (case websocket_connections s to of
             None \<Rightarrow> [] | Some tw \<Rightarrow> if tw \<in> broken s then [] else [Ws_send tw (Message user text)])
        @ (case sse_queues s to of None \<Rightarrow> [] | Some q \<Rightarrow> [Queue_put q (Message user text)])
        @ [Ws_send w (if websocket_connections s to = None \<and> sse_queues s to = None
                      then Error_frame (''Peer '' @ to @ '' is not online'')
                      else Message_sent to)]\<rparr>)"
  using assms
  by (auto simp: reply_def send_json_def queue_put_def Let_def split: option.splits)

lemma http_send_step:
  assumes "valid_uuid from" "valid_uuid to" "text \<noteq> []"
  shows "send_message_http (Body (Some from) (Some to) (Some text)) s =
    (if (\<exists>tw. websocket_connections s to = Some tw \<and> tw \<notin> broken s) \<or> sse_queues s to \<noteq> None
     then Ok_sent else Not_found (''Peer '' @ to @ '' is not online''),
     s\<lparr>writes := writes s
        @ (case websocket_connections s to of
             None \<Rightarrow> [] | Some tw \<Rightarrow> if tw \<in> broken s then [] else [Ws_send tw (Message from text)])
        @ (case sse_queues s to of None \<Rightarrow> [] | Some q \<Rightarrow> [Queue_put q (Message from text)])\<rparr>)"
  using assms valid_uuid_nonempty [OF assms(1)] valid_uuid_nonempty [OF assms(2)]
  by (auto simp: send_json_def queue_put_def Let_def split: option.splits)

lemma register_step:
  assumes "valid_uuid x" "w \<notin> broken s"
  shows "ws_event w user (Register (Some x)) s =
    (Continue, Some x,
     s\<lparr>websocket_connections := (websocket_connections s)(x \<mapsto> w),
       writes := writes s @ [Ws_send w (Registered x)]\<rparr>)"
  using assms valid_uuid_nonempty [OF assms(1)] by (simp add: reply_def send_json_def)

lemma valid_example_upper: "valid_uuid uuid_a_upper"
  by (simp add: uuid_eval)

lemma same_value_example: "UUID uuid_a = UUID uuid_a_upper"
  by (simp add: uuid_eval)

lemmas step_eval = reply_def send_json_def queue_put_def ws_exit_def Let_def

lemma http_rejects_malformed_recipient:
  "\<not> valid_uuid to \<Longrightarrow> \<exists>m. send_message_http (Body from_uuid (Some to) text) s = (Bad_request m, s)"
  by simp

lemma scan_digits_bound_any:
  "scan_digits us acc ds = Some (v, r) \<Longrightarrow> v < (acc + 1) * 16 ^ length ds"
proof (induction ds arbitrary: us acc)
  case Nil
  then show ?case by (simp split: if_splits)
next
  case (Cons c cs)
  show ?case
  proof (cases "c = CHR ''_''")
    case True
    with Cons.prems have "scan_digits True acc cs = Some (v, r)" by (simp split: if_splits)
    from Cons.IH [OF this] have "v < (acc + 1) * 16 ^ length cs" .
    also have "\<dots> \<le> (acc + 1) * (16 * 16 ^ length cs)" by simp
    finally show ?thesis by simp
  next
    case nu: False
    show ?thesis
    proof (cases "digit_value c")
      case None
      with Cons.prems nu have "v = acc" by (simp split: if_splits)
      moreover have "acc < (acc + 1) * 16 ^ length (c # cs)"
        by (metis Suc_eq_plus1 lessI less_le_trans mult.right_neutral mult_le_mono2 one_le_numeral one_le_power)
      ultimately show ?thesis by simp
    next
      case (Some d)
      then have d16: "d < 16" by (auto simp: digit_value_def Let_def split: if_splits)
      from Cons.prems nu Some have "scan_digits False (16 * acc + d) cs = Some (v, r)" by simp
      from Cons.IH [OF this] have "v < (16 * acc + d + 1) * 16 ^ length cs" .
      also have "\<dots> \<le> (16 * (acc + 1)) * 16 ^ length cs"
        using d16 by (intro mult_right_mono) simp_all
      finally show ?thesis by (simp add: algebra_simps)
    qed
  qed
qed

lemma int_16_bound:
  assumes "int_16 s = Some i" "CHR ''-'' \<notin> set s"
  shows "0 \<le> i \<and> i < 16 ^ length s"
proof -
  define s1 where "s1 = dropWhile isspace s"
  define s2 where "s2 = (case s1 of c # r \<Rightarrow> if c = CHR ''+'' \<or> c = CHR ''-'' then r else s1 | [] \<Rightarrow> s1)"
  define s3 where "s3 = (case s2 of
                  c # x # r \<Rightarrow>
                    if c = CHR ''0'' \<and> (x = CHR ''x'' \<or> x = CHR ''X'')
                    then (case r of u # r' \<Rightarrow> if u = CHR ''_'' then r' else r | [] \<Rightarrow> r)
                    else s2
                | _ \<Rightarrow> s2)"
  have l1: "length s1 \<le> length s" unfolding s1_def by (rule length_dropWhile_le)
  have l2: "length s2 \<le> length s1" unfolding s2_def by (simp split: list.splits)
  have l3: "length s3 \<le> length s2" unfolding s3_def by (simp split: list.splits)
  have "set s1 \<subseteq> set s" unfolding s1_def by (rule set_dropWhileD [THEN subsetI]) 
  with assms(2) have nneg: "\<not> (case s1 of c # _ \<Rightarrow> c = CHR ''-'' | [] \<Rightarrow> False)"
    by (auto split: list.splits)
  from assms(1) obtain v rest where sc: "scan_digits False 0 s3 = Some (v, rest)" and i: "i = int v"
    using nneg unfolding int_16_def s1_def [symmetric] Let_def s2_def [symmetric] s3_def [symmetric]
    by (auto split: list.splits if_splits option.splits)
  from scan_digits_bound_any [OF sc] have "v < 16 ^ length s3" by simp
  also have "\<dots> \<le> 16 ^ length s" using l1 l2 l3 by (intro power_increasing) simp_all
  finally have "int v < 16 ^ length s" by (metis of_nat_less_iff of_nat_numeral of_nat_power)
  with i show ?thesis by simp
qed

lemma valid_uuid_iff:
  "valid_uuid s \<longleftrightarrow>
     length (replace_del ''-'' (strip ''{}'' (replace_del ''uuid:'' (replace_del ''urn:'' s)))) = 32
     \<and> int_16 (replace_del ''-'' (strip ''{}'' (replace_del ''uuid:'' (replace_del ''urn:'' s)))) \<noteq> None"
proof -
  let ?h = "replace_del ''-'' (strip ''{}'' (replace_del ''uuid:'' (replace_del ''urn:'' s)))"
  have nh: "CHR ''-'' \<notin> set ?h" by (simp add: replace_del_single)
  have "\<And>i. length ?h = 32 \<Longrightarrow> int_16 ?h = Some i \<Longrightarrow> 0 \<le> i \<and> i < 2 ^ 128"
  proof -
    fix i assume l: "length ?h = 32" and "int_16 ?h = Some i"
    from int_16_bound [OF this(2) nh] have "0 \<le> i" "i < 16 ^ length ?h" by simp_all
    then have "i < 16 ^ 32" by (simp only: l)
    with \<open>0 \<le> i\<close> show "0 \<le> i \<and> i < 2 ^ 128" by simp
  qed
  then show ?thesis
    unfolding valid_uuid_def UUID_def Let_def by (auto split: option.splits)
qed

lemma strip_braced:
  assumes "s \<noteq> []" "hd s \<notin> set chars" "last s \<notin> set chars" "a \<in> set chars" "b \<in> set chars"
  shows "strip chars (a # s @ [b]) = s"
proof -
  from assms obtain c cs where s: "s = c # cs" by (cases s) auto
  with assms have 1: "dropWhile (\<lambda>c. c \<in> set chars) (a # s @ [b]) = s @ [b]" by simp
  from assms have "rev s \<noteq> []" "hd (rev s) \<notin> set chars" by (simp_all add: hd_rev)
  then have 2: "dropWhile (\<lambda>c. c \<in> set chars) (rev s) = rev s" by (cases "rev s") auto
  have 3: "dropWhile (\<lambda>c. c \<in> set chars) (rev (s @ [b])) = rev s"
    using assms(5) 2 by simp
  show ?thesis unfolding strip_def 1 3 by simp
qed

lemma accepted_core:
  assumes "replace_del ''uuid:'' (replace_del ''urn:'' s) = t" "strip ''{}'' t = c"
    and "length (filter (\<lambda>x. x \<noteq> CHR ''-'') c) = 32"
    and "list_all hexdigit (filter (\<lambda>x. x \<noteq> CHR ''-'') c)"
  shows "valid_uuid s"
proof -
  let ?ds = "filter (\<lambda>x. x \<noteq> CHR ''-'') c"
  from assms(3) have "?ds \<noteq> []" by auto
  from int_16_hex [OF this assms(4)] have "int_16 ?ds \<noteq> None" by auto
  with assms show ?thesis by (simp add: valid_uuid_iff replace_del_single)
qed

lemma canonical_core:
  assumes "canonical_layout s"
  shows "length (filter (\<lambda>x. x \<noteq> CHR ''-'') s) = 32"
    and "list_all hexdigit (filter (\<lambda>x. x \<noteq> CHR ''-'') s)"
    and "s \<noteq> []" and "hexdigit (hd s)" and "hexdigit (last s)"
    and "\<And>x. x \<in> set s \<Longrightarrow> hexdigit x \<or> x = CHR ''-''"
proof -
  define a where "a = take 8 s"
  define b where "b = take 4 (drop 9 s)"
  define c where "c = take 4 (drop 14 s)"
  define d where "d = take 4 (drop 19 s)"
  define e where "e = drop 24 s"
  from assms have len: "length s = 36" by (simp add: canonical_layout_def)
  from assms have hx: "list_all hexdigit a" "list_all hexdigit b" "list_all hexdigit c"
    "list_all hexdigit d" "list_all hexdigit e"
    by (simp_all add: canonical_layout_def a_def b_def c_def d_def e_def)
  have lens: "length a = 8" "length b = 4" "length c = 4" "length d = 4" "length e = 12"
    using len by (simp_all add: a_def b_def c_def d_def e_def)
  have s: "s = a @ CHR ''-'' # b @ CHR ''-'' # c @ CHR ''-'' # d @ CHR ''-'' # e"
    using canonical_parts [OF assms] by (simp add: a_def b_def c_def d_def e_def)
  have nd: "\<And>xs. list_all hexdigit xs \<Longrightarrow> filter (\<lambda>c. c \<noteq> CHR ''-'') xs = xs"
    by (rule filter_True) (auto simp: list_all_iff dest: hexdigit_not_special)
  have f: "filter (\<lambda>c. c \<noteq> CHR ''-'') s = a @ b @ c @ d @ e"
    by (subst s) (simp add: nd hx)
  show "length (filter (\<lambda>x. x \<noteq> CHR ''-'') s) = 32" using lens by (simp add: f)
  show "list_all hexdigit (filter (\<lambda>x. x \<noteq> CHR ''-'') s)" using hx by (simp add: f)
  show "s \<noteq> []" using len by auto
  have ne: "a \<noteq> []" "e \<noteq> []" using lens by auto
  then have "hd s = hd a" "last s = last e" by (subst s, simp)+
  moreover have "hexdigit (hd a)" "hexdigit (last e)"
    using hx ne by (auto simp: list_all_iff)
  ultimately show "hexdigit (hd s)" "hexdigit (last s)" by simp_all
  show "\<And>x. x \<in> set s \<Longrightarrow> hexdigit x \<or> x = CHR ''-''"
    using hx by (subst (asm) s) (auto simp: list_all_iff)
qed

lemma no_u_no_change:
  assumes "CHR ''u'' \<notin> set s"
  shows "replace_del ''uuid:'' (replace_del ''urn:'' s) = s"
proof -
  have "replace_del ''urn:'' s = s" using assms by (intro replace_del_absent) simp_all
  moreover have "replace_del ''uuid:'' s = s" using assms by (intro replace_del_absent) simp_all
  ultimately show ?thesis by simp
qed

lemma canonical_forms_valid:
  assumes "canonical_layout s"
  shows "valid_uuid s" and "valid_uuid (filter (\<lambda>c. c \<noteq> CHR ''-'') s)"
    and "valid_uuid (''{'' @ s @ ''}'')" and "valid_uuid (''urn:uuid:'' @ s)"
proof -
  note core = canonical_core [OF assms]
  have nu: "CHR ''u'' \<notin> set s"
    using core(6) hexdigit_not_special [of "CHR ''u''"] by fastforce
  have br: "hd s \<notin> set ''{}''" "last s \<notin> set ''{}''"
    using hexdigit_not_special [OF core(4)] hexdigit_not_special [OF core(5)] by auto
  have st: "strip ''{}'' s = s" using core(3) br by (intro strip_id)
  show "valid_uuid s"
    by (rule accepted_core [OF no_u_no_change [OF nu] st core(1,2)])
  let ?f = "filter (\<lambda>c. c \<noteq> CHR ''-'') s"
  have fne: "?f \<noteq> []" using core(1) by auto
  have fall: "\<And>x. x \<in> set ?f \<Longrightarrow> hexdigit x" using core(2) by (simp add: list_all_iff)
  have fu: "CHR ''u'' \<notin> set ?f" using fall hexdigit_not_special [of "CHR ''u''"] by blast
  have "hexdigit (hd ?f)" "hexdigit (last ?f)"
    by (rule fall [OF hd_in_set [OF fne]], rule fall [OF last_in_set [OF fne]])
  then have fbr: "hd ?f \<notin> set ''{}''" "last ?f \<notin> set ''{}''"
    using hexdigit_not_special by auto
  have fst: "strip ''{}'' ?f = ?f" using fne fbr by (intro strip_id)
  have ff: "filter (\<lambda>x. x \<noteq> CHR ''-'') ?f = ?f" by simp
  show "valid_uuid ?f"
    by (rule accepted_core [OF no_u_no_change [OF fu] fst]) (simp_all only: ff core(1,2))
  have bu: "CHR ''u'' \<notin> set (''{'' @ s @ ''}'')" using nu by simp
  have bst: "strip ''{}'' (''{'' @ s @ ''}'') = s"
    using strip_braced [OF core(3) br, of "CHR ''{''" "CHR ''}''"] by simp
  show "valid_uuid (''{'' @ s @ ''}'')"
    by (rule accepted_core [OF no_u_no_change [OF bu] bst core(1,2)])
  have r1: "replace_del ''urn:'' s = s" using nu by (intro replace_del_absent) simp_all
  have r2: "replace_del ''uuid:'' s = s" using nu by (intro replace_del_absent) simp_all
  have "replace_del ''urn:'' (''urn:uuid:'' @ s) = ''uuid:'' @ s" by (simp add: r1)
  moreover have "replace_del ''uuid:'' (''uuid:'' @ s) = s"  by (simp add: r2)
  ultimately have ur: "replace_del ''uuid:'' (replace_del ''urn:'' (''urn:uuid:'' @ s)) = s" by simp
  show "valid_uuid (''urn:uuid:'' @ s)"
    by (rule accepted_core [OF ur st core(1,2)])
qed

section \<open>The outcome of a delivery\<close>

text \<open>
  Claim C1. A recipient whose only registry entry is a WebSocket that raises on
  \<^verbatim>\<open>send_json\<close> has a slot in the registry, yet \<^verbatim>\<open>send_message_http\<close> answers 404
  \<^verbatim>\<open>Peer ... is not online\<close>: the failed write alone turns the result into the offline
  answer, because \<^verbatim>\<open>delivered\<close> is set only after a successful write (line 216).
\<close>

theorem http_broken_channel_reports_offline:
  "websocket_connections
     \<lparr>websocket_connections = [uuid_a \<mapsto> 1],
      sse_queues = Map.empty, broken = {1}, writes = []\<rparr>
     uuid_a = Some 1
   \<and> fst (send_message_http
            (Body (Some uuid_b)
                  (Some uuid_a) (Some ''hi''))
            \<lparr>websocket_connections = [uuid_a \<mapsto> 1],
             sse_queues = Map.empty, broken = {1}, writes = []\<rparr>)
      = Not_found ''Peer 550e8400-e29b-41d4-a716-446655440000 is not online''"
  using valid_example_a valid_example_b by (simp add: send_json_def)

section \<open>The two senders compared\<close>

text \<open>
  Claim C2. In one and the same state, with the same sender, recipient and text, the
  WebSocket \<^verbatim>\<open>message\<close> branch answers \<^verbatim>\<open>message_sent\<close> (it tests the presence of the
  entries, line 104) and the HTTP handler answers 404 \<^verbatim>\<open>not online\<close> (it tests the
  \<^verbatim>\<open>delivered\<close> flag, line 230): the two copies of the delivery block disagree.
\<close>

theorem ws_and_http_outcomes_differ:
  "ws_event 2 (Some uuid_b)
     (Message_event (Some uuid_a) (Some ''hi''))
     \<lparr>websocket_connections = [uuid_a \<mapsto> 1],
      sse_queues = Map.empty, broken = {1}, writes = []\<rparr>
   = (Continue, Some uuid_b,
      \<lparr>websocket_connections = [uuid_a \<mapsto> 1],
       sse_queues = Map.empty, broken = {1},
       writes = [Ws_send 2 (Message_sent uuid_a)]\<rparr>)
   \<and> send_message_http
       (Body (Some uuid_b)
             (Some uuid_a) (Some ''hi''))
       \<lparr>websocket_connections = [uuid_a \<mapsto> 1],
        sse_queues = Map.empty, broken = {1}, writes = []\<rparr>
   = (Not_found ''Peer 550e8400-e29b-41d4-a716-446655440000 is not online'',
      \<lparr>websocket_connections = [uuid_a \<mapsto> 1],
       sse_queues = Map.empty, broken = {1}, writes = []\<rparr>)"
  using valid_example_a valid_example_b by (simp add: send_json_def reply_def)

text \<open>
  A second difference between the two copies: the HTTP handler validates the sender,
  the WebSocket branch only tests that \<^verbatim>\<open>user_uuid\<close> is truthy. A session whose
  \<^verbatim>\<open>user_uuid\<close> is \<^verbatim>\<open>not-a-uuid\<close> (after a rejected registration) delivers, the HTTP
  handler refuses the same request.
\<close>

lemma invalid_sender_divergence:
  "ws_event 2 (Some ''not-a-uuid'') (Message_event (Some uuid_a) (Some ''hi''))
     \<lparr>websocket_connections = [uuid_a \<mapsto> 1], sse_queues = Map.empty, broken = {}, writes = []\<rparr>
   = (Continue, Some ''not-a-uuid'',
      \<lparr>websocket_connections = [uuid_a \<mapsto> 1], sse_queues = Map.empty, broken = {},
       writes = [Ws_send 1 (Message ''not-a-uuid'' ''hi''), Ws_send 2 (Message_sent uuid_a)]\<rparr>)
   \<and> send_message_http (Body (Some ''not-a-uuid'') (Some uuid_a) (Some ''hi''))
       \<lparr>websocket_connections = [uuid_a \<mapsto> 1], sse_queues = Map.empty, broken = {}, writes = []\<rparr>
   = (Bad_request ''Invalid UUID'',
      \<lparr>websocket_connections = [uuid_a \<mapsto> 1], sse_queues = Map.empty, broken = {}, writes = []\<rparr>)"
  using valid_example_a invalid_example by (simp add: step_eval)

section \<open>Cleanup at the end of a session\<close>

text \<open>
  Claim C3. A session that registers an identifier and then receives another
  \<^verbatim>\<open>register\<close> event, invalid or valid, ends by removing the entry of the identifier it
  saw last; the entry of the first identifier stays in the registry and still holds the
  ended session's channel.
\<close>

theorem reregister_leaves_stale_entry:
  "websocket_connections
     (websocket_endpoint 1 None [Register (Some uuid_a), Register (Some ''not-a-uuid'')]
        WebSocketDisconnect start) uuid_a = Some 1
   \<and> websocket_connections
     (websocket_endpoint 1 None [Register (Some uuid_a), Register (Some uuid_b)]
        WebSocketDisconnect start) uuid_a = Some 1"
  using valid_example_a valid_example_b invalid_example by (simp add: step_eval)

section \<open>A malformed recipient\<close>

text \<open>
  Claim C4. The WebSocket \<^verbatim>\<open>message\<close> branch does not validate \<^verbatim>\<open>to_uuid\<close>: for the
  recipient \<^verbatim>\<open>not-a-uuid\<close> it looks the registry up and answers that the peer is not
  online. The HTTP handler rejects the same recipient with \<^verbatim>\<open>Invalid UUID\<close> and touches
  nothing.
\<close>

theorem ws_message_to_malformed_recipient:
  "\<not> valid_uuid ''not-a-uuid''
   \<and> ws_event 1 (Some uuid_a) (Message_event (Some ''not-a-uuid'') (Some ''hi''))
       \<lparr>websocket_connections = [uuid_a \<mapsto> 1], sse_queues = Map.empty, broken = {}, writes = []\<rparr>
     = (Continue, Some uuid_a,
        \<lparr>websocket_connections = [uuid_a \<mapsto> 1], sse_queues = Map.empty, broken = {},
         writes = [Ws_send 1 (Error_frame ''Peer not-a-uuid is not online'')]\<rparr>)
   \<and> send_message_http (Body (Some uuid_a) (Some ''not-a-uuid'') (Some ''hi''))
       \<lparr>websocket_connections = [uuid_a \<mapsto> 1], sse_queues = Map.empty, broken = {}, writes = []\<rparr>
     = (Bad_request ''Invalid UUID'',
        \<lparr>websocket_connections = [uuid_a \<mapsto> 1], sse_queues = Map.empty, broken = {}, writes = []\<rparr>)"
  using valid_example_a invalid_example by (simp add: step_eval)

section \<open>A rejected registration\<close>

text \<open>
  Claim C5. A \<^verbatim>\<open>register\<close> event whose identifier is malformed or missing is answered
  with an error and leaves the registry as it was, but the session's \<^verbatim>\<open>user_uuid\<close> is
  overwritten by the rejected value: the previously bound identifier is lost.
\<close>

theorem failed_register_rebinds_session:
  "ws_event 1 (Some uuid_a) (Register (Some ''not-a-uuid''))
       \<lparr>websocket_connections = [uuid_a \<mapsto> 1], sse_queues = Map.empty, broken = {}, writes = []\<rparr>
     = (Continue, Some ''not-a-uuid'',
        \<lparr>websocket_connections = [uuid_a \<mapsto> 1], sse_queues = Map.empty, broken = {},
         writes = [Ws_send 1 (Error_frame ''Invalid UUID'')]\<rparr>)
   \<and> ws_event 1 (Some uuid_a) (Register None)
       \<lparr>websocket_connections = [uuid_a \<mapsto> 1], sse_queues = Map.empty, broken = {}, writes = []\<rparr>
     = (Continue, None,
        \<lparr>websocket_connections = [uuid_a \<mapsto> 1], sse_queues = Map.empty, broken = {},
         writes = [Ws_send 1 (Error_frame ''UUID is required'')]\<rparr>)"
  using invalid_example by (simp add: step_eval)

section \<open>What the validator accepts\<close>

text \<open>
  Claim C6 (as amended). The validator accepts a string exactly when, after deleting
  every \<^verbatim>\<open>urn:\<close> and \<^verbatim>\<open>uuid:\<close>, stripping braces from both ends and deleting every
  hyphen, exactly 32 characters remain and \<^verbatim>\<open>int(_, 16)\<close> parses them; every other
  string is rejected. So every string in the canonical hyphenated layout is accepted, in
  either letter case, and so are its unhyphenated, braced and URN-prefixed spellings.
\<close>

theorem validator_accepts:
  "(canonical_layout s \<longrightarrow>
      valid_uuid s \<and> valid_uuid (filter (\<lambda>c. c \<noteq> CHR ''-'') s)
      \<and> valid_uuid (''{'' @ s @ ''}'') \<and> valid_uuid (''urn:uuid:'' @ s))
   \<and> (valid_uuid s \<longleftrightarrow>
        length (replace_del ''-'' (strip ''{}'' (replace_del ''uuid:'' (replace_del ''urn:'' s)))) = 32
        \<and> int_16 (replace_del ''-'' (strip ''{}'' (replace_del ''uuid:'' (replace_del ''urn:'' s))))
            \<noteq> None)"
  using canonical_forms_valid [of s] valid_uuid_iff [of s] by blast

theorem validator_accepts_witness:
  "canonical_layout uuid_a
   \<and> valid_uuid uuid_a
   \<and> valid_uuid ''550e8400e29b41d4a716446655440000''
   \<and> valid_uuid ''{550e8400-e29b-41d4-a716-446655440000}''
   \<and> valid_uuid ''urn:uuid:550e8400-e29b-41d4-a716-446655440000''
   \<and> \<not> valid_uuid ''not-a-uuid''"
proof -
  have c: "canonical_layout uuid_a"
    by (simp add: canonical_layout_def hexdigit_def digit_value_def)
  from c validator_accepts [of uuid_a]
  have "valid_uuid uuid_a \<and> valid_uuid (filter (\<lambda>c. c \<noteq> CHR ''-'') uuid_a)
      \<and> valid_uuid (''{'' @ uuid_a @ ''}'') \<and> valid_uuid (''urn:uuid:'' @ uuid_a)"
    by blast
  moreover from validator_accepts [of "''not-a-uuid''"] have "\<not> valid_uuid ''not-a-uuid''"
    by (simp add: strip_def)
  ultimately show ?thesis using c by simp
qed

theorem noncanonical_accepted:
  "valid_uuid ''550e8400e29b41d4a716446655440000''
   \<and> \<not> canonical_layout ''550e8400e29b41d4a716446655440000''
   \<and> valid_uuid ''{550e8400-e29b-41d4-a716-446655440000}''
   \<and> \<not> canonical_layout ''{550e8400-e29b-41d4-a716-446655440000}''
   \<and> valid_uuid ''urn:uuid:550e8400-e29b-41d4-a716-446655440000''
   \<and> \<not> canonical_layout ''urn:uuid:550e8400-e29b-41d4-a716-446655440000''"
  by (simp add: uuid_eval canonical_layout_def)

section \<open>Delivery to both slots\<close>

text \<open>
  Claim C7 (as amended). When the recipient has a WebSocket entry and a queue entry, a
  delivery by either handler writes the message to the channel, if that write succeeds,
  and then to the queue, and the sender is told that it was delivered. If the write to
  the channel raises, the exception is swallowed: only the queue receives the message,
  and the sender is still told that it was delivered.
\<close>

theorem both_slots_delivery:
  assumes "websocket_connections s to = Some tw" "sse_queues s to = Some q"
    and "valid_uuid from" "valid_uuid to" "text \<noteq> []" "w \<notin> broken s"
  shows "send_message_http (Body (Some from) (Some to) (Some text)) s =
           (Ok_sent,
            s\<lparr>writes := writes s
                @ (if tw \<in> broken s then [] else [Ws_send tw (Message from text)])
                @ [Queue_put q (Message from text)]\<rparr>)
       \<and> ws_event w (Some from) (Message_event (Some to) (Some text)) s =
           (Continue, Some from,
            s\<lparr>writes := writes s
                @ (if tw \<in> broken s then [] else [Ws_send tw (Message from text)])
                @ [Queue_put q (Message from text), Ws_send w (Message_sent to)]\<rparr>)"
proof -
  note ne = valid_uuid_nonempty [OF assms(3)] valid_uuid_nonempty [OF assms(4)]
  show ?thesis
    using assms(1,2)
    by (simp add: ws_message_step [OF ne assms(5,6)] http_send_step [OF assms(3,4,5)]
          del: ws_event.simps send_message_http.simps)
qed

theorem both_slots_delivery_witness:
  "websocket_connections \<lparr>websocket_connections = [uuid_a \<mapsto> 1], sse_queues = [uuid_a \<mapsto> 7],
                          broken = {}, writes = []\<rparr> uuid_a = Some 1
   \<and> sse_queues \<lparr>websocket_connections = [uuid_a \<mapsto> 1], sse_queues = [uuid_a \<mapsto> 7],
                 broken = {}, writes = []\<rparr> uuid_a = Some 7
   \<and> valid_uuid uuid_b \<and> valid_uuid uuid_a \<and> ''hi'' \<noteq> []
   \<and> 2 \<notin> broken \<lparr>websocket_connections = [uuid_a \<mapsto> 1], sse_queues = [uuid_a \<mapsto> 7],
                  broken = {}, writes = []\<rparr>
   \<and> send_message_http (Body (Some uuid_b) (Some uuid_a) (Some ''hi''))
        \<lparr>websocket_connections = [uuid_a \<mapsto> 1], sse_queues = [uuid_a \<mapsto> 7],
         broken = {}, writes = []\<rparr>
      = (Ok_sent,
         \<lparr>websocket_connections = [uuid_a \<mapsto> 1], sse_queues = [uuid_a \<mapsto> 7], broken = {},
          writes = [Ws_send 1 (Message uuid_b ''hi''), Queue_put 7 (Message uuid_b ''hi'')]\<rparr>)
   \<and> ws_event 2 (Some uuid_b) (Message_event (Some uuid_a) (Some ''hi''))
        \<lparr>websocket_connections = [uuid_a \<mapsto> 1], sse_queues = [uuid_a \<mapsto> 7],
         broken = {}, writes = []\<rparr>
      = (Continue, Some uuid_b,
         \<lparr>websocket_connections = [uuid_a \<mapsto> 1], sse_queues = [uuid_a \<mapsto> 7], broken = {},
          writes = [Ws_send 1 (Message uuid_b ''hi''), Queue_put 7 (Message uuid_b ''hi''),
                    Ws_send 2 (Message_sent uuid_a)]\<rparr>)
   \<and> 3 \<in> broken \<lparr>websocket_connections = [uuid_b \<mapsto> 3], sse_queues = [uuid_b \<mapsto> 9],
                  broken = {3}, writes = []\<rparr>
   \<and> send_message_http (Body (Some uuid_a) (Some uuid_b) (Some ''yo''))
        \<lparr>websocket_connections = [uuid_b \<mapsto> 3], sse_queues = [uuid_b \<mapsto> 9],
         broken = {3}, writes = []\<rparr>
      = (Ok_sent,
         \<lparr>websocket_connections = [uuid_b \<mapsto> 3], sse_queues = [uuid_b \<mapsto> 9], broken = {3},
          writes = [Queue_put 9 (Message uuid_a ''yo'')]\<rparr>)"
proof -
  let ?s = "\<lparr>websocket_connections = [uuid_a \<mapsto> 1], sse_queues = [uuid_a \<mapsto> 7],
             broken = {}, writes = []\<rparr>"
  let ?t = "\<lparr>websocket_connections = [uuid_b \<mapsto> 3], sse_queues = [uuid_b \<mapsto> 9],
             broken = {3}, writes = []\<rparr>"
  have h: "websocket_connections ?s uuid_a = Some 1" "sse_queues ?s uuid_a = Some 7"
    "''hi'' \<noteq> []" "2 \<notin> broken ?s" by simp_all
  have k: "websocket_connections ?t uuid_b = Some 3" "sse_queues ?t uuid_b = Some 9"
    "''yo'' \<noteq> []" "2 \<notin> broken ?t" by simp_all
  from both_slots_delivery [OF h(1,2) valid_example_b valid_example_a h(3,4)]
    both_slots_delivery [OF k(1,2) valid_example_a valid_example_b k(3,4)]
  show ?thesis using valid_example_a valid_example_b by simp
qed

theorem broken_channel_receives_nothing:
  "websocket_connections \<lparr>websocket_connections = [uuid_a \<mapsto> 1], sse_queues = [uuid_a \<mapsto> 7], broken = {1}, writes = []\<rparr> uuid_a = Some 1
   \<and> sse_queues \<lparr>websocket_connections = [uuid_a \<mapsto> 1], sse_queues = [uuid_a \<mapsto> 7], broken = {1}, writes = []\<rparr> uuid_a = Some 7
   \<and> send_message_http (Body (Some uuid_b) (Some uuid_a) (Some ''hi''))
        \<lparr>websocket_connections = [uuid_a \<mapsto> 1], sse_queues = [uuid_a \<mapsto> 7], broken = {1}, writes = []\<rparr>
      = (Ok_sent,
         \<lparr>websocket_connections = [uuid_a \<mapsto> 1], sse_queues = [uuid_a \<mapsto> 7], broken = {1},
          writes = [Queue_put 7 (Message uuid_b ''hi'')]\<rparr>)
   \<and> ws_event 2 (Some uuid_b) (Message_event (Some uuid_a) (Some ''hi''))
        \<lparr>websocket_connections = [uuid_a \<mapsto> 1], sse_queues = [uuid_a \<mapsto> 7], broken = {1}, writes = []\<rparr>
      = (Continue, Some uuid_b,
         \<lparr>websocket_connections = [uuid_a \<mapsto> 1], sse_queues = [uuid_a \<mapsto> 7], broken = {1},
          writes = [Queue_put 7 (Message uuid_b ''hi''), Ws_send 2 (Message_sent uuid_a)]\<rparr>)"
  using valid_example_a valid_example_b by (simp add: step_eval)

section \<open>The frame of a disconnect\<close>

text \<open>
  Claim C8. When a session bound to identifier \<open>x\<close> ends, whatever the cause, the queue
  registry is unchanged and the WebSocket entry of every other identifier is unchanged;
  nothing is written.
\<close>

theorem disconnect_frame:
  "y \<noteq> x \<Longrightarrow>
     sse_queues (websocket_endpoint w (Some x) [] cause s) = sse_queues s
     \<and> websocket_connections (websocket_endpoint w (Some x) [] cause s) y = websocket_connections s y
     \<and> broken (websocket_endpoint w (Some x) [] cause s) = broken s
     \<and> writes (websocket_endpoint w (Some x) [] cause s) = writes s"
  by (cases cause) (simp_all add: ws_exit_def)

theorem disconnect_frame_witness:
  "uuid_b \<noteq> uuid_a
   \<and> sse_queues (websocket_endpoint 1 (Some uuid_a) [] WebSocketDisconnect
        \<lparr>websocket_connections = [uuid_a \<mapsto> 1, uuid_b \<mapsto> 2], sse_queues = [uuid_a \<mapsto> 7], broken = {}, writes = []\<rparr>)
      = [uuid_a \<mapsto> 7]
   \<and> websocket_connections (websocket_endpoint 1 (Some uuid_a) [] WebSocketDisconnect
        \<lparr>websocket_connections = [uuid_a \<mapsto> 1, uuid_b \<mapsto> 2], sse_queues = [uuid_a \<mapsto> 7], broken = {}, writes = []\<rparr>)
        uuid_b = Some 2
   \<and> websocket_connections (websocket_endpoint 1 (Some uuid_a) [] WebSocketDisconnect
        \<lparr>websocket_connections = [uuid_a \<mapsto> 1, uuid_b \<mapsto> 2], sse_queues = [uuid_a \<mapsto> 7], broken = {}, writes = []\<rparr>)
        uuid_a = None"
proof -
  have ne: "uuid_b \<noteq> uuid_a" by simp
  from disconnect_frame [OF ne, of 1 WebSocketDisconnect
      "\<lparr>websocket_connections = [uuid_a \<mapsto> 1, uuid_b \<mapsto> 2], sse_queues = [uuid_a \<mapsto> 7], broken = {}, writes = []\<rparr>"]
  show ?thesis by (simp add: ws_exit_def)
qed

section \<open>Unregistration is by identifier\<close>

text \<open>
  Claim C9. When two sessions register the same identifier, the later registration
  replaces the earlier one; when the earlier session then ends, it removes the entry
  stored under the identifier, which is the later session's, and a message to that
  identifier is answered with not online. The same holds for two SSE subscriptions.
\<close>

theorem older_session_end_removes_newer:
  assumes "valid_uuid x" "w1 \<notin> broken s" "w2 \<notin> broken s"
  shows "(\<exists>s1 s2.
      ws_event w1 None (Register (Some x)) s = (Continue, Some x, s1)
    \<and> ws_event w2 None (Register (Some x)) s1 = (Continue, Some x, s2)
    \<and> websocket_connections s2 x = Some w2
    \<and> websocket_connections (websocket_endpoint w1 (Some x) [] WebSocketDisconnect s2) x = None
    \<and> (valid_uuid from \<and> text \<noteq> [] \<and> sse_queues s x = None \<longrightarrow>
         send_message_http (Body (Some from) (Some x) (Some text))
           (websocket_endpoint w1 (Some x) [] WebSocketDisconnect s2)
         = (Not_found (''Peer '' @ x @ '' is not online''),
            websocket_endpoint w1 (Some x) [] WebSocketDisconnect s2)))
   \<and> (\<exists>t1 t2.
      sse_endpoint (Some x) q1 s = (Streaming, t1)
    \<and> sse_endpoint (Some x) q2 t1 = (Streaming, t2)
    \<and> sse_queues t2 x = Some q2
    \<and> sse_queues (sse_cancelled x t2) x = None)"
proof (rule conjI)
  note ne = valid_uuid_nonempty [OF assms(1)]
  let ?s1 = "s\<lparr>websocket_connections := (websocket_connections s)(x \<mapsto> w1),
       writes := writes s @ [Ws_send w1 (Registered x)]\<rparr>"
  let ?s2 = "?s1\<lparr>websocket_connections := (websocket_connections ?s1)(x \<mapsto> w2),
       writes := writes ?s1 @ [Ws_send w2 (Registered x)]\<rparr>"
  let ?s3 = "websocket_endpoint w1 (Some x) [] WebSocketDisconnect ?s2"
  have 1: "ws_event w1 None (Register (Some x)) s = (Continue, Some x, ?s1)"
    by (rule register_step [OF assms(1,2)])
  have "w2 \<notin> broken ?s1" using assms(3) by simp
  from register_step [OF assms(1) this]
  have 2: "ws_event w2 None (Register (Some x)) ?s1 = (Continue, Some x, ?s2)" .
  have 3: "websocket_connections ?s2 x = Some w2" by simp
  have 4: "websocket_connections ?s3 x = None" using ne by (simp add: ws_exit_def)
  have 5: "valid_uuid from \<and> text \<noteq> [] \<and> sse_queues s x = None \<longrightarrow>
         send_message_http (Body (Some from) (Some x) (Some text)) ?s3
         = (Not_found (''Peer '' @ x @ '' is not online''), ?s3)"
  proof
    assume a: "valid_uuid from \<and> text \<noteq> [] \<and> sse_queues s x = None"
    then have f: "valid_uuid from" and t: "text \<noteq> []" and q: "sse_queues s x = None" by simp_all
    have q3: "sse_queues ?s3 x = None" using q ne by (simp add: ws_exit_def)
    show "send_message_http (Body (Some from) (Some x) (Some text)) ?s3
         = (Not_found (''Peer '' @ x @ '' is not online''), ?s3)"
      unfolding http_send_step [OF f assms(1) t] using 4 q3 by simp
  qed
  from 1 2 3 4 5 show "\<exists>s1 s2.
      ws_event w1 None (Register (Some x)) s = (Continue, Some x, s1)
    \<and> ws_event w2 None (Register (Some x)) s1 = (Continue, Some x, s2)
    \<and> websocket_connections s2 x = Some w2
    \<and> websocket_connections (websocket_endpoint w1 (Some x) [] WebSocketDisconnect s2) x = None
    \<and> (valid_uuid from \<and> text \<noteq> [] \<and> sse_queues s x = None \<longrightarrow>
         send_message_http (Body (Some from) (Some x) (Some text))
           (websocket_endpoint w1 (Some x) [] WebSocketDisconnect s2)
         = (Not_found (''Peer '' @ x @ '' is not online''),
            websocket_endpoint w1 (Some x) [] WebSocketDisconnect s2))"
    by blast
next
  note ne = valid_uuid_nonempty [OF assms(1)]
  show "\<exists>t1 t2.
      sse_endpoint (Some x) q1 s = (Streaming, t1)
    \<and> sse_endpoint (Some x) q2 t1 = (Streaming, t2)
    \<and> sse_queues t2 x = Some q2
    \<and> sse_queues (sse_cancelled x t2) x = None"
    using assms(1) ne by (simp add: sse_endpoint_def sse_cancelled_def)
qed

theorem older_session_end_removes_newer_witness:
  "valid_uuid uuid_a \<and> 1 \<notin> broken start \<and> 2 \<notin> broken start
   \<and> (\<exists>s1 s2.
        ws_event 1 None (Register (Some uuid_a)) start = (Continue, Some uuid_a, s1)
      \<and> ws_event 2 None (Register (Some uuid_a)) s1 = (Continue, Some uuid_a, s2)
      \<and> websocket_connections s2 uuid_a = Some 2
      \<and> websocket_connections (websocket_endpoint 1 (Some uuid_a) [] WebSocketDisconnect s2) uuid_a = None
      \<and> valid_uuid uuid_b \<and> ''hi'' \<noteq> [] \<and> sse_queues start uuid_a = None
      \<and> fst (send_message_http (Body (Some uuid_b) (Some uuid_a) (Some ''hi''))
               (websocket_endpoint 1 (Some uuid_a) [] WebSocketDisconnect s2))
         = Not_found ''Peer 550e8400-e29b-41d4-a716-446655440000 is not online'')
   \<and> (\<exists>t1 t2.
        sse_endpoint (Some uuid_a) 7 start = (Streaming, t1)
      \<and> sse_endpoint (Some uuid_a) 8 t1 = (Streaming, t2)
      \<and> sse_queues t2 uuid_a = Some 8
      \<and> sse_queues (sse_cancelled uuid_a t2) uuid_a = None)"
proof -
  have b: "1 \<notin> broken start" "2 \<notin> broken start" by simp_all
  have h: "valid_uuid uuid_b \<and> ''hi'' \<noteq> [] \<and> sse_queues start uuid_a = None"
    using valid_example_b by simp
  from older_session_end_removes_newer [OF valid_example_a b, of "uuid_b" "''hi''" 7 8] h
  show ?thesis using valid_example_a by fastforce
qed

section \<open>Keys are raw strings\<close>

text \<open>
  Claim C10. Two different strings that both pass validation and denote the same 128-bit
  value are different keys: after a session registers under one spelling, a message
  addressed to the other spelling, which has no entry of its own, is answered with not
  online by both handlers.
\<close>

theorem other_spelling_is_offline:
  assumes "valid_uuid a" "valid_uuid b" "UUID a = UUID b" "a \<noteq> b"
    and "websocket_connections s b = None" "sse_queues s b = None"
    and "w \<notin> broken s" "w' \<notin> broken s" "valid_uuid from" "text \<noteq> []"
  shows "\<exists>s1.
      ws_event w None (Register (Some a)) s = (Continue, Some a, s1)
    \<and> websocket_connections s1 a = Some w
    \<and> send_message_http (Body (Some from) (Some b) (Some text)) s1
        = (Not_found (''Peer '' @ b @ '' is not online''), s1)
    \<and> ws_event w' (Some from) (Message_event (Some b) (Some text)) s1
        = (Continue, Some from,
           s1\<lparr>writes := writes s1 @ [Ws_send w' (Error_frame (''Peer '' @ b @ '' is not online''))]\<rparr>)"
proof -
  let ?s1 = "s\<lparr>websocket_connections := (websocket_connections s)(a \<mapsto> w),
       writes := writes s @ [Ws_send w (Registered a)]\<rparr>"
  have 1: "ws_event w None (Register (Some a)) s = (Continue, Some a, ?s1)"
    by (rule register_step [OF assms(1,7)])
  have 2: "websocket_connections ?s1 a = Some w" by simp
  have nb: "websocket_connections ?s1 b = None" "sse_queues ?s1 b = None"
    using assms(4,5,6) by simp_all
  have 3: "send_message_http (Body (Some from) (Some b) (Some text)) ?s1
        = (Not_found (''Peer '' @ b @ '' is not online''), ?s1)"
    unfolding http_send_step [OF assms(9,2,10)] using nb by simp
  have w': "w' \<notin> broken ?s1" using assms(8) by simp
  have 4: "ws_event w' (Some from) (Message_event (Some b) (Some text)) ?s1
        = (Continue, Some from,
           ?s1\<lparr>writes := writes ?s1 @ [Ws_send w' (Error_frame (''Peer '' @ b @ '' is not online''))]\<rparr>)"
    unfolding ws_message_step [OF valid_uuid_nonempty [OF assms(9)] valid_uuid_nonempty [OF assms(2)] assms(10) w']
    using nb by simp
  from 1 2 3 4 show ?thesis by blast
qed

theorem other_spelling_is_offline_witness:
  "valid_uuid uuid_a \<and> valid_uuid uuid_a_upper \<and> UUID uuid_a = UUID uuid_a_upper \<and> uuid_a \<noteq> uuid_a_upper
   \<and> websocket_connections start uuid_a_upper = None \<and> sse_queues start uuid_a_upper = None
   \<and> 1 \<notin> broken start \<and> 2 \<notin> broken start \<and> valid_uuid uuid_b \<and> ''hi'' \<noteq> []
   \<and> (\<exists>s1.
        ws_event 1 None (Register (Some uuid_a)) start = (Continue, Some uuid_a, s1)
      \<and> websocket_connections s1 uuid_a = Some 1
      \<and> fst (send_message_http (Body (Some uuid_b) (Some uuid_a_upper) (Some ''hi'')) s1)
          = Not_found ''Peer 550E8400-E29B-41D4-A716-446655440000 is not online''
      \<and> last (writes (snd (snd (ws_event 2 (Some uuid_b) (Message_event (Some uuid_a_upper) (Some ''hi'')) s1))))
          = Ws_send 2 (Error_frame ''Peer 550E8400-E29B-41D4-A716-446655440000 is not online''))"
proof -
  have h: "uuid_a \<noteq> uuid_a_upper" "websocket_connections start uuid_a_upper = None" "sse_queues start uuid_a_upper = None"
    "1 \<notin> broken start" "2 \<notin> broken start" "''hi'' \<noteq> []" by simp_all
  from other_spelling_is_offline [OF valid_example_a valid_example_upper same_value_example h(1-5)
      valid_example_b h(6)]
  show ?thesis using valid_example_a valid_example_upper same_value_example valid_example_b
    by fastforce
qed

end
